theory Spec2Isabelle
  imports Main "HOL-Library.AList" "HOL-Library.Multiset"
begin

section \<open>Records, stores and the environment\<close>

text \<open>
  A value as JSON and Firestore hand it back: \<^verbatim>\<open>null\<close>, a number (an integer here)
  or a string. Equality of two such values is \<^verbatim>\<open>===\<close>.
\<close>

datatype jsval = Null | Num int | Str string

text \<open>JavaScript truthiness of such a value.\<close>

fun truthyVal :: "jsval \<Rightarrow> bool" where
  "truthyVal Null = False"
| "truthyVal (Num n) = (n \<noteq> 0)"
| "truthyVal (Str s) = (s \<noteq> [])"

text \<open>
  A BRD is a flat JavaScript object. The model keeps the four properties that
  \<^verbatim>\<open>storage.js\<close> reads by name as typed fields and every other property in \<open>props\<close>.
  \<open>None\<close> stands for an absent (\<^verbatim>\<open>undefined\<close>) property.
  \<^verbatim>\<open>createdAt\<close> is tested for truthiness and compared with \<^verbatim>\<open>===\<close>: the model keeps its
  value as it is. \<^verbatim>\<open>lastUpdated\<close> is written by \<^verbatim>\<open>saveBRD\<close> and read only through
  \<^verbatim>\<open>new Date(...)\<close>: the model keeps the time value (milliseconds) that \<^verbatim>\<open>new Date\<close>
  reads from it, \<open>None\<close> when it is absent or no valid date.
\<close>

record brd =
  brd_id :: "string option"
  title :: "string option"
  createdAt :: "jsval option"
  lastUpdated :: "int option"
  props :: "(string \<times> string) list"

datatype error = Error string

datatype mode = New | Edit

text \<open>
  What a call cannot decide by itself: whether a user is signed in; the clock, as the
  string \<^verbatim>\<open>new Date().toISOString()\<close> (\<open>currentTime\<close>, never empty) and as the time value
  that \<^verbatim>\<open>new Date\<close> reads back from that string (\<open>currentTimeValue\<close>); the identifier
  that \<^verbatim>\<open>generateUniqueId\<close> returns (never empty); the identifier that Firestore
  makes up for \<^verbatim>\<open>.doc(undefined)\<close>, given the collection; and whether Firestore or
  \<^verbatim>\<open>localStorage\<close> reject an operation (\<open>Some m\<close>: the operation throws an error with
  message \<open>m\<close>).
\<close>

record env =
  cloudAvailable :: bool
  currentTime :: string
  currentTimeValue :: int
  uniqueId :: string
  autoId :: "(string \<times> brd) list \<Rightarrow> string"
  firestoreGetError :: "string option"
  firestoreSetError :: "brd \<Rightarrow> string option"
  setItemError :: "string option"

text \<open>
  \<open>localBRDs\<close> is the parsed content of the \<^verbatim>\<open>brd_drafts\<close> key, \<open>tempData\<close> that of
  \<^verbatim>\<open>brd_temp_data\<close> (\<open>None\<close>: the key is not set), \<open>cloudDocs\<close> the documents of
  \<^verbatim>\<open>users/<uid>/brds\<close> by document id.
\<close>

record world =
  localBRDs :: "brd list"
  tempData :: "brd option"
  cloudDocs :: "(string \<times> brd) list"

text \<open>JavaScript truthiness of a string property: defined and not empty.\<close>

fun truthy :: "string option \<Rightarrow> bool" where
  "truthy None = False"
| "truthy (Some v) = (v \<noteq> [])"

text \<open>\<^verbatim>\<open>a || b\<close> on a string property and a string.\<close>

fun orElse :: "string option \<Rightarrow> string \<Rightarrow> string" where
  "orElse None d = d"
| "orElse (Some v) d = (if v = [] then d else v)"

text \<open>\<^verbatim>\<open>{...a, ...b}\<close>: the properties of \<open>b\<close> win, those only in \<open>a\<close> stay.\<close>

definition spread :: "brd \<Rightarrow> brd \<Rightarrow> brd" where
  "spread a b =
     \<lparr> brd_id = (case brd_id b of None \<Rightarrow> brd_id a | Some v \<Rightarrow> Some v),
       title = (case title b of None \<Rightarrow> title a | Some v \<Rightarrow> Some v),
       createdAt = (case createdAt b of None \<Rightarrow> createdAt a | Some v \<Rightarrow> Some v),
       lastUpdated = (case lastUpdated b of None \<Rightarrow> lastUpdated a | Some v \<Rightarrow> Some v),
       props = foldl (\<lambda>ps (k, v). AList.update k v ps) (props a) (props b) \<rparr>"

definition canUseCloudStorage :: "env \<Rightarrow> bool" where
  "canUseCloudStorage e = cloudAvailable e"

section \<open>storage.js: saving\<close>

text \<open>\<^verbatim>\<open>brdData.createdAt || currentTime\<close>: a falsy stamp is replaced like an absent one.\<close>

fun createdAtOr :: "jsval option \<Rightarrow> string \<Rightarrow> jsval" where
  "createdAtOr None now = Str now"
| "createdAtOr (Some v) now = (if truthyVal v then v else Str now)"

text \<open>The object \<^verbatim>\<open>brdWithMeta\<close> that \<^verbatim>\<open>saveBRD\<close> builds from its argument.\<close>

definition brdWithMeta :: "env \<Rightarrow> brd \<Rightarrow> brd" where
  "brdWithMeta e brdData =
     brdData \<lparr> brd_id := Some (orElse (brd_id brdData) (uniqueId e)),
               lastUpdated := Some (currentTimeValue e),
               createdAt := Some (createdAtOr (createdAt brdData) (currentTime e)),
               title := Some (orElse (title brdData) ''BRD Tanpa Judul'') \<rparr>"

text \<open>
  \<^verbatim>\<open>docRef.set(data, {merge})\<close> on the collection: with \<open>merge\<close> the properties of an
  existing document that \<open>data\<close> does not have are kept.
\<close>

definition setDoc :: "string \<Rightarrow> brd \<Rightarrow> bool \<Rightarrow> (string \<times> brd) list \<Rightarrow> (string \<times> brd) list" where
  "setDoc i d merge docs =
     AList.update i
       (case map_of docs i of
          None \<Rightarrow> d
        | Some old \<Rightarrow> if merge then spread old d else d) docs"

text \<open>
  The document that \<^verbatim>\<open>.doc(brdData.id)\<close> refers to: the one of that id, or a document
  under an identifier that Firestore makes up when the id is \<^verbatim>\<open>undefined\<close>.
\<close>

definition docKey :: "env \<Rightarrow> (string \<times> brd) list \<Rightarrow> brd \<Rightarrow> string" where
  "docKey e docs brdData = (case brd_id brdData of None \<Rightarrow> autoId e docs | Some i \<Rightarrow> i)"

text \<open>
  \<^verbatim>\<open>saveBRDToFirestore\<close>. \<^verbatim>\<open>.doc("")\<close> throws (the message of that error belongs to
  the Firestore SDK; the text here stands for it).
\<close>

definition saveBRDToFirestore :: "env \<Rightarrow> brd \<Rightarrow> mode \<Rightarrow> world \<Rightarrow> (error + unit) \<times> world" where
  "saveBRDToFirestore e brdData m w =
     (if \<not> canUseCloudStorage e then (Inl (Error ''Cloud storage not available''), w)
      else if brd_id brdData = Some [] then (Inl (Error ''invalid document path''), w)
      else (case firestoreSetError e brdData of
              Some msg \<Rightarrow> (Inl (Error msg), w)
            | None \<Rightarrow>
                (Inr (),
                 w \<lparr> cloudDocs := setDoc (docKey e (cloudDocs w) brdData) brdData (m = Edit)
                                    (cloudDocs w) \<rparr>)))"

definition getLocalBRDs :: "world \<Rightarrow> brd list" where
  "getLocalBRDs w = localBRDs w"

text \<open>\<^verbatim>\<open>drafts.findIndex(p)\<close>, with \<open>None\<close> for \<^verbatim>\<open>-1\<close>.\<close>

fun findIndex :: "('a \<Rightarrow> bool) \<Rightarrow> 'a list \<Rightarrow> nat option" where
  "findIndex p [] = None"
| "findIndex p (x # xs) =
     (if p x then Some 0 else map_option Suc (findIndex p xs))"

text \<open>\<^verbatim>\<open>localStorage.setItem(this.localStorageKey, JSON.stringify(drafts))\<close>.\<close>

definition setLocalBRDs :: "env \<Rightarrow> brd list \<Rightarrow> world \<Rightarrow> (error + unit) \<times> world" where
  "setLocalBRDs e drafts w =
     (case setItemError e of
        Some msg \<Rightarrow> (Inl (Error msg), w)
      | None \<Rightarrow> (Inr (), w \<lparr> localBRDs := drafts \<rparr>))"

definition saveBRDToLocalStorage ::
  "env \<Rightarrow> brd \<Rightarrow> mode \<Rightarrow> nat option \<Rightarrow> world \<Rightarrow> (error + unit) \<times> world" where
  "saveBRDToLocalStorage e brdData m editIndex w =
     (let drafts = getLocalBRDs w;
          drafts' =
            (if m = Edit \<and> (case editIndex of None \<Rightarrow> False | Some k \<Rightarrow> k < length drafts)
             then drafts[the editIndex := brdData]
             else case findIndex (\<lambda>d. brd_id d = brd_id brdData) drafts of
                    Some existingIndex \<Rightarrow> drafts[existingIndex := brdData]
                  | None \<Rightarrow> drafts @ [brdData])
      in setLocalBRDs e drafts' w)"

text \<open>The \<^verbatim>\<open>catch\<close> of \<^verbatim>\<open>saveBRD\<close> rethrows with a prefixed message.\<close>

fun saveFailed :: "error \<Rightarrow> error" where
  "saveFailed (Error msg) = Error (''Gagal menyimpan BRD: '' @ msg)"

definition saveBRD ::
  "env \<Rightarrow> brd \<Rightarrow> mode \<Rightarrow> nat option \<Rightarrow> world \<Rightarrow> (error + string) \<times> world" where
  "saveBRD e brdData m editIndex w =
     (let b = brdWithMeta e brdData;
          (r1, w1) = (if canUseCloudStorage e then saveBRDToFirestore e b m w
                      else (Inr (), w))
      in case r1 of
           Inl err \<Rightarrow> (Inl (saveFailed err), w1)
         | Inr _ \<Rightarrow>
             (case saveBRDToLocalStorage e b m editIndex w1 of
                (Inl err, w2) \<Rightarrow> (Inl (saveFailed err), w2)
              | (Inr _, w2) \<Rightarrow> (Inr (orElse (brd_id brdData) (uniqueId e)), w2)))"

section \<open>storage.js: loading\<close>

text \<open>
  \<^verbatim>\<open>loadBRDsFromFirestore\<close>: every document becomes \<^verbatim>\<open>{ id: doc.id, ...doc.data() }\<close>.
  The query asks the server for the collection ordered by \<^verbatim>\<open>lastUpdated\<close>; the model
  returns every document, in the order of \<open>cloudDocs\<close>. \<^verbatim>\<open>loadBRDs\<close> sorts the answer
  again by itself, and \<^verbatim>\<open>migrateLocalToCloud\<close> only searches it.
\<close>

definition loadBRDsFromFirestore :: "env \<Rightarrow> world \<Rightarrow> error + brd list" where
  "loadBRDsFromFirestore e w =
     (if \<not> canUseCloudStorage e then Inr []
      else case firestoreGetError e of
        Some msg \<Rightarrow> Inl (Error msg)
      | None \<Rightarrow>
          Inr (map (\<lambda>(docId, d).
                 d \<lparr> brd_id := (case brd_id d of None \<Rightarrow> Some docId | Some v \<Rightarrow> Some v) \<rparr>)
               (cloudDocs w)))"

text \<open>\<^verbatim>\<open>syncBRDsToLocalStorage\<close> catches the error of its own write.\<close>

definition syncBRDsToLocalStorage :: "env \<Rightarrow> brd list \<Rightarrow> world \<Rightarrow> world" where
  "syncBRDsToLocalStorage e brds w =
     (case setLocalBRDs e brds w of
        (Inl err, w') \<Rightarrow> w'
      | (Inr _, w') \<Rightarrow> w')"

text \<open>
  The comparison function \<^verbatim>\<open>(a, b) => new Date(b.lastUpdated) - new Date(a.lastUpdated)\<close>;
  \<open>None\<close> is \<^verbatim>\<open>NaN\<close>, the difference with an invalid date.
\<close>

definition compareFn :: "brd \<Rightarrow> brd \<Rightarrow> int option" where
  "compareFn a b =
     (case lastUpdated b of
        None \<Rightarrow> None
      | Some tb \<Rightarrow> (case lastUpdated a of None \<Rightarrow> None | Some ta \<Rightarrow> Some (tb - ta)))"

text \<open>
  \<^verbatim>\<open>Array.prototype.sort\<close> with a comparison function: the language reads a \<^verbatim>\<open>NaN\<close>
  result as \<open>0\<close> and sorts stably. The model is the stable insertion sort; where the
  comparison is consistent (no \<^verbatim>\<open>NaN\<close>) the language leaves no other result.
\<close>

definition sortCompare :: "('a \<Rightarrow> 'a \<Rightarrow> int option) \<Rightarrow> 'a \<Rightarrow> 'a \<Rightarrow> int" where
  "sortCompare cmp x y = (case cmp x y of None \<Rightarrow> 0 | Some v \<Rightarrow> v)"

fun array_insert :: "('a \<Rightarrow> 'a \<Rightarrow> int option) \<Rightarrow> 'a \<Rightarrow> 'a list \<Rightarrow> 'a list" where
  "array_insert cmp x [] = [x]"
| "array_insert cmp x (y # ys) =
     (if sortCompare cmp x y \<le> 0 then x # y # ys else y # array_insert cmp x ys)"

fun array_sort :: "('a \<Rightarrow> 'a \<Rightarrow> int option) \<Rightarrow> 'a list \<Rightarrow> 'a list" where
  "array_sort cmp [] = []"
| "array_sort cmp (x # xs) = array_insert cmp x (array_sort cmp xs)"

text \<open>The \<^verbatim>\<open>try\<close> block of \<^verbatim>\<open>loadBRDs\<close>, and \<^verbatim>\<open>loadBRDs\<close> with its \<^verbatim>\<open>catch\<close>.\<close>

definition loadBRDs_try :: "env \<Rightarrow> world \<Rightarrow> (error + brd list) \<times> world" where
  "loadBRDs_try e w =
     (if canUseCloudStorage e then
        (case loadBRDsFromFirestore e w of
           Inl err \<Rightarrow> (Inl err, w)
         | Inr brds \<Rightarrow>
             (Inr (array_sort compareFn brds), syncBRDsToLocalStorage e brds w))
      else (Inr (array_sort compareFn (getLocalBRDs w)), w))"

definition loadBRDs :: "env \<Rightarrow> world \<Rightarrow> (error + brd list) \<times> world" where
  "loadBRDs e w =
     (case loadBRDs_try e w of
        (Inl err, w') \<Rightarrow> (Inr (getLocalBRDs w'), w')
      | (Inr brds, w') \<Rightarrow> (Inr brds, w'))"

section \<open>storage.js: migration\<close>

text \<open>\<^verbatim>\<open>cloudBRDs.some(c => c.title === localBRD.title && c.createdAt === localBRD.createdAt)\<close>.\<close>

definition existsInCloud :: "brd list \<Rightarrow> brd \<Rightarrow> bool" where
  "existsInCloud cloudBRDs localBRD =
     list_ex (\<lambda>cloudBRD. title cloudBRD = title localBRD
                        \<and> createdAt cloudBRD = createdAt localBRD) cloudBRDs"

text \<open>The \<^verbatim>\<open>for\<close> loop; an error of a push leaves the loop at once.\<close>

fun migrateLoop :: "env \<Rightarrow> brd list \<Rightarrow> brd list \<Rightarrow> nat \<Rightarrow> world \<Rightarrow> (error + nat) \<times> world" where
  "migrateLoop e cloudBRDs [] migratedCount w = (Inr migratedCount, w)"
| "migrateLoop e cloudBRDs (localBRD # rest) migratedCount w =
     (if \<not> existsInCloud cloudBRDs localBRD then
        (case saveBRDToFirestore e localBRD New w of
           (Inl err, w') \<Rightarrow> (Inl err, w')
         | (Inr _, w') \<Rightarrow> migrateLoop e cloudBRDs rest (migratedCount + 1) w')
      else migrateLoop e cloudBRDs rest migratedCount w)"

definition migrateLocalToCloud :: "env \<Rightarrow> world \<Rightarrow> nat \<times> world" where
  "migrateLocalToCloud e w =
     (if \<not> canUseCloudStorage e then (0, w)
      else case loadBRDsFromFirestore e w of
        Inl err \<Rightarrow> (0, w)
      | Inr cloudBRDs \<Rightarrow>
          (case migrateLoop e cloudBRDs (getLocalBRDs w) 0 w of
             (Inl err, w') \<Rightarrow> (0, w')
           | (Inr migratedCount, w') \<Rightarrow> (migratedCount, w')))"

section \<open>storage.js: the draft\<close>

definition emptyObject :: brd where
  "emptyObject = \<lparr> brd_id = None, title = None, createdAt = None, lastUpdated = None, props = [] \<rparr>"

definition getTempData :: "world \<Rightarrow> brd" where
  "getTempData w = (case tempData w of None \<Rightarrow> emptyObject | Some stored \<Rightarrow> stored)"

text \<open>\<^verbatim>\<open>saveTempData\<close> merges into the stored draft and catches the error of its write.\<close>

definition saveTempData :: "env \<Rightarrow> brd \<Rightarrow> world \<Rightarrow> world" where
  "saveTempData e data w =
     (let existing = getTempData w;
          merged = spread existing data
      in case setItemError e of
           Some msg \<Rightarrow> w
         | None \<Rightarrow> w \<lparr> tempData := Some merged \<rparr>)"

definition clearTempData :: "world \<Rightarrow> world" where
  "clearTempData w = w \<lparr> tempData := None \<rparr>"

section \<open>form-generator.js\<close>

subsection \<open>Field definitions and the form\<close>

record validation =
  minLength :: "nat option"
  maxLength :: "nat option"

record field =
  field_id :: string
  field_name :: string
  required :: bool
  field_validation :: "validation option"
  defaultValue :: "string option"

record form_section =
  section_id :: string
  section_fields :: "field list"

text \<open>
  The three texts that \<^verbatim>\<open>validateField\<close> shows: "Field ini wajib diisi",
  "Minimal n karakter" and "Maksimal n karakter".
\<close>

datatype message = MissingRequired | TooShort nat | TooLong nat

text \<open>
  An input of \<^verbatim>\<open>#brd-form\<close>: its id, name and value, whether it carries the class
  \<^verbatim>\<open>invalid-field\<close>, and the text of the \<^verbatim>\<open>.field-error\<close> paragraph of its wrapper.
  A character of a value is one code unit below 256.
\<close>

record element =
  elem_id :: string
  elem_name :: string
  elem_value :: string
  invalidField :: bool
  fieldError :: "message option"

text \<open>
  The generator with the page it drives: the inputs of the form in document order,
  the toasts shown so far, and the storage manager's state.
\<close>

record wizard =
  currentStep :: nat
  sections :: "form_section list"
  wizard_mode :: mode
  editIndex :: "nat option"
  formData :: brd
  form :: "element list"
  toasts :: "(string \<times> string) list"
  store :: world

subsection \<open>Validation\<close>

text \<open>The white space that \<^verbatim>\<open>String.prototype.trim\<close> removes, among the code units below 256.\<close>

definition isWhiteSpace :: "char \<Rightarrow> bool" where
  "isWhiteSpace c =
     (c = CHR 0x09 \<or> c = CHR 0x0A \<or> c = CHR 0x0B \<or> c = CHR 0x0C \<or> c = CHR 0x0D
      \<or> c = CHR 0x20 \<or> c = CHR 0xA0)"

definition trim :: "string \<Rightarrow> string" where
  "trim s = rev (dropWhile isWhiteSpace (rev (dropWhile isWhiteSpace s)))"

definition markFieldInvalid :: "element \<Rightarrow> message \<Rightarrow> element" where
  "markFieldInvalid el msg = el \<lparr> invalidField := True, fieldError := Some msg \<rparr>"

text \<open>
  The messages that \<^verbatim>\<open>validateField\<close> passes to \<^verbatim>\<open>markFieldInvalid\<close> for a trimmed
  value, in the order of the three checks. A bound that is absent or \<open>0\<close> is falsy and
  its check is skipped.
\<close>

definition validationMessages :: "field \<Rightarrow> string \<Rightarrow> message list" where
  "validationMessages fld v =
     (if required fld \<and> v = [] then [MissingRequired] else []) @
     (if v \<noteq> [] then
        (case field_validation fld of
           None \<Rightarrow> []
         | Some val \<Rightarrow>
             (case minLength val of
                None \<Rightarrow> []
              | Some n \<Rightarrow> if n \<noteq> 0 \<and> length v < n then [TooShort n] else []) @
             (case maxLength val of
                None \<Rightarrow> []
              | Some n \<Rightarrow> if n \<noteq> 0 \<and> n < length v then [TooLong n] else []))
      else [])"

text \<open>
  \<^verbatim>\<open>validateField\<close>: the result is \<^verbatim>\<open>isValid\<close>, which no call of \<^verbatim>\<open>markFieldInvalid\<close>
  leaves true, and the element after the calls.
\<close>

definition validateField :: "field \<Rightarrow> element \<Rightarrow> bool \<times> element" where
  "validateField fld el =
     (let v = trim (elem_value el);
          msgs = validationMessages fld v
      in (msgs = [], foldl markFieldInvalid el msgs))"

definition inputId :: "field \<Rightarrow> string" where
  "inputId fld = ''input-'' @ field_id fld"

text \<open>The \<^verbatim>\<open>forEach\<close> of \<^verbatim>\<open>validateCurrentSection\<close>; a field without an element is skipped.\<close>

fun validateFields :: "field list \<Rightarrow> element list \<Rightarrow> bool \<Rightarrow> bool \<times> element list" where
  "validateFields [] els isValid = (isValid, els)"
| "validateFields (fld # rest) els isValid =
     (case findIndex (\<lambda>el. elem_id el = inputId fld) els of
        None \<Rightarrow> validateFields rest els isValid
      | Some k \<Rightarrow>
          (case validateField fld (els ! k) of
             (ok, el') \<Rightarrow> validateFields rest (els[k := el']) (isValid \<and> ok)))"

text \<open>
  \<^verbatim>\<open>validateCurrentSection\<close>. Reading \<^verbatim>\<open>.fields\<close> of a section that does not exist
  throws a \<^verbatim>\<open>TypeError\<close>.
\<close>

definition validateCurrentSection :: "wizard \<Rightarrow> error + bool \<times> wizard" where
  "validateCurrentSection st =
     (if currentStep st < length (sections st) then
        (let currentSection = sections st ! currentStep st;
             cleared = map (\<lambda>el. el \<lparr> invalidField := False \<rparr>) (form st)
         in case validateFields (section_fields currentSection) cleared True of
              (isValid, els) \<Rightarrow>
                Inr (isValid,
                     st \<lparr> form := els,
                          toasts := (if isValid then toasts st
                                     else toasts st @
                                       [(''Mohon isi semua kolom yang diperlukan dengan benar'',
                                         ''error'')]) \<rparr>))
      else Inl (Error ''TypeError''))"

subsection \<open>The draft of the form\<close>

text \<open>
  Reading and writing a property of the form data by name. The form has no input
  named \<^verbatim>\<open>createdAt\<close> or \<^verbatim>\<open>lastUpdated\<close>; the two typed stamps are not reached by name.
\<close>

definition getProp :: "string \<Rightarrow> brd \<Rightarrow> string option" where
  "getProp k b =
     (if k = ''title'' then title b
      else if k = ''id'' then brd_id b
      else map_of (props b) k)"

definition setProp :: "string \<Rightarrow> string \<Rightarrow> brd \<Rightarrow> brd" where
  "setProp k v b =
     (if k = ''title'' then b \<lparr> title := Some v \<rparr>
      else if k = ''id'' then b \<lparr> brd_id := Some v \<rparr>
      else b \<lparr> props := AList.update k v (props b) \<rparr>)"

text \<open>\<^verbatim>\<open>getCurrentFormData\<close>: name and value of every named input of the form.\<close>

definition getCurrentFormData :: "element list \<Rightarrow> (string \<times> string) list" where
  "getCurrentFormData els =
     foldl (\<lambda>data input.
              if elem_name input \<noteq> [] then AList.update (elem_name input) (elem_value input) data
              else data) [] els"

text \<open>\<^verbatim>\<open>Object.assign(target, data)\<close>.\<close>

definition objectAssign :: "brd \<Rightarrow> (string \<times> string) list \<Rightarrow> brd" where
  "objectAssign target data = foldl (\<lambda>b (k, v). setProp k v b) target data"

definition saveCurrentSectionData :: "env \<Rightarrow> wizard \<Rightarrow> wizard" where
  "saveCurrentSectionData e st =
     (let currentFormData = getCurrentFormData (form st);
          formData' = objectAssign (formData st) currentFormData
      in st \<lparr> formData := formData', store := saveTempData e formData' (store st) \<rparr>)"

subsection \<open>Loading a section\<close>

text \<open>\<^verbatim>\<open>createFieldElement\<close>: a fresh input, with the default value when there is one.\<close>

definition createFieldElement :: "field \<Rightarrow> element" where
  "createFieldElement fld =
     \<lparr> elem_id = inputId fld, elem_name = field_name fld,
       elem_value = orElse (defaultValue fld) [],
       invalidField = False, fieldError = None \<rparr>"

definition buildSectionForm :: "form_section \<Rightarrow> element list" where
  "buildSectionForm sec = map createFieldElement (section_fields sec)"

text \<open>\<^verbatim>\<open>loadSavedSectionData\<close> fills in what the stored draft has for a field.\<close>

fun loadSavedFields :: "brd \<Rightarrow> field list \<Rightarrow> element list \<Rightarrow> element list" where
  "loadSavedFields tmp [] els = els"
| "loadSavedFields tmp (fld # rest) els =
     (case findIndex (\<lambda>el. elem_id el = inputId fld) els of
        None \<Rightarrow> loadSavedFields tmp rest els
      | Some k \<Rightarrow>
          (if truthy (getProp (field_name fld) tmp)
           then loadSavedFields tmp rest
                  (els[k := (els ! k) \<lparr> elem_value := the (getProp (field_name fld) tmp) \<rparr>])
           else loadSavedFields tmp rest els))"

definition loadSavedSectionData :: "form_section \<Rightarrow> wizard \<Rightarrow> wizard" where
  "loadSavedSectionData sec st =
     st \<lparr> form := loadSavedFields (getTempData (store st)) (section_fields sec) (form st) \<rparr>"

definition loadFormSection :: "nat \<Rightarrow> wizard \<Rightarrow> wizard" where
  "loadFormSection index st =
     (if index \<ge> length (sections st) then st
      else (let sec = sections st ! index
            in loadSavedSectionData sec
                 (st \<lparr> currentStep := index, form := buildSectionForm sec \<rparr>)))"

subsection \<open>Navigation\<close>


definition navigatePrevious :: "env \<Rightarrow> wizard \<Rightarrow> wizard" where
  "navigatePrevious e st =
     (if currentStep st > 0
      then loadFormSection (currentStep st - 1) (saveCurrentSectionData e st)
      else st)"

text \<open>
  \<^verbatim>\<open>FormGenerator.saveBRD\<close>: on an error of the storage manager it shows a toast and
  rethrows. The model reads the clock once for the whole action.
\<close>

definition formSaveBRD :: "env \<Rightarrow> wizard \<Rightarrow> (error + string) \<times> wizard" where
  "formSaveBRD e st0 =
     (let st = saveCurrentSectionData e st0;
          brdData = (formData st)
            \<lparr> brd_id := Some (orElse (brd_id (formData st)) (uniqueId e)),
              lastUpdated := Some (currentTimeValue e),
              createdAt := Some (createdAtOr (createdAt (formData st)) (currentTime e)) \<rparr>
      in case saveBRD e brdData (wizard_mode st) (editIndex st) (store st) of
           (Inr brdId, w) \<Rightarrow>
             (Inr brdId,
              st \<lparr> store := clearTempData w,
                   toasts := toasts st @ [(''BRD berhasil disimpan!'', ''success'')] \<rparr>)
         | (Inl (Error msg), w) \<Rightarrow>
             (Inl (Error msg),
              st \<lparr> store := w,
                   toasts := toasts st @ [(''Gagal menyimpan BRD: '' @ msg, ''error'')] \<rparr>))"

definition navigateNext :: "env \<Rightarrow> wizard \<Rightarrow> (error + unit) \<times> wizard" where
  "navigateNext e st =
     (case validateCurrentSection st of
        Inl err \<Rightarrow> (Inl err, st)
      | Inr (valid, st1) \<Rightarrow>
          (if valid then
             (let st2 = saveCurrentSectionData e st1
              in if currentStep st2 + 1 < length (sections st2)
                 then (Inr (), loadFormSection (currentStep st2 + 1) st2)
                 else (case formSaveBRD e st2 of
                         (Inl err, st3) \<Rightarrow> (Inl err, st3)
                       | (Inr brdId, st3) \<Rightarrow> (Inr (), st3)))
           else (Inr (), st1)))"

section \<open>Notions used in the statements\<close>

text \<open>
  \<open>a\<close> is at least as recent as \<open>b\<close>: both stamps are valid dates and the time value of
  \<open>a\<close> is not below that of \<open>b\<close>.
\<close>

definition newerOrEqual :: "brd \<Rightarrow> brd \<Rightarrow> bool" where
  "newerOrEqual a b =
     (case lastUpdated a of
        None \<Rightarrow> False
      | Some ta \<Rightarrow> (case lastUpdated b of None \<Rightarrow> False | Some tb \<Rightarrow> tb \<le> ta))"



text \<open>
  The length bounds of a field, \<^verbatim>\<open>field.validation.minLength\<close> and
  \<^verbatim>\<open>field.validation.maxLength\<close>, where they are defined.
\<close>

definition minBound :: "field \<Rightarrow> nat option" where
  "minBound fld = (case field_validation fld of None \<Rightarrow> None | Some val \<Rightarrow> minLength val)"

definition maxBound :: "field \<Rightarrow> nat option" where
  "maxBound fld = (case field_validation fld of None \<Rightarrow> None | Some val \<Rightarrow> maxLength val)"

text \<open>
  What the form shows as failed after a validation: the inputs that carry the class
  \<^verbatim>\<open>invalid-field\<close>, each by its id with the message under it.
\<close>

definition reportedFailures :: "element list \<Rightarrow> (string \<times> message option) list" where
  "reportedFailures els = map (\<lambda>el. (elem_id el, fieldError el)) (filter invalidField els)"

subsection \<open>Example data\<close>

abbreviation exampleEnv :: env where
  "exampleEnv \<equiv>
     \<lparr> cloudAvailable = True, currentTime = ''2025-09-30T12:42:10.000Z'',
       currentTimeValue = 1759236130000, uniqueId = ''k3x'', autoId = (\<lambda>_. ''Zq7''),
       firestoreGetError = None, firestoreSetError = (\<lambda>_. None), setItemError = None \<rparr>"

abbreviation exampleOld :: brd where
  "exampleOld \<equiv>
     \<lparr> brd_id = Some ''a1'', title = Some ''X'',
       createdAt = Some (Str ''2025-09-29T08:00:00.000Z''),
       lastUpdated = Some 1759132800000, props = [] \<rparr>"

abbreviation exampleNew :: brd where
  "exampleNew \<equiv>
     \<lparr> brd_id = Some ''b2'', title = Some ''Y'',
       createdAt = Some (Str ''2025-09-30T08:00:00.000Z''),
       lastUpdated = Some 1759219200000, props = [] \<rparr>"

abbreviation exampleWorld :: world where
  "exampleWorld \<equiv> \<lparr> localBRDs = [exampleOld, exampleNew], tempData = None, cloudDocs = [] \<rparr>"

abbreviation exampleDraft :: brd where
  "exampleDraft \<equiv>
     \<lparr> brd_id = None, title = None, createdAt = None, lastUpdated = None,
       props = [(''versi'', ''1.0'')] \<rparr>"

abbreviation titleField :: field where
  "titleField \<equiv>
     \<lparr> field_id = ''title'', field_name = ''title'', required = True,
       field_validation = Some \<lparr> minLength = Some 5, maxLength = Some 100 \<rparr>,
       defaultValue = None \<rparr>"

abbreviation versiField :: field where
  "versiField \<equiv>
     \<lparr> field_id = ''versi'', field_name = ''versi'', required = True,
       field_validation = None, defaultValue = Some ''1.0'' \<rparr>"

abbreviation latarBelakangField :: field where
  "latarBelakangField \<equiv>
     \<lparr> field_id = ''latar-belakang'', field_name = ''latar-belakang'', required = True,
       field_validation = Some \<lparr> minLength = Some 50, maxLength = Some 2000 \<rparr>,
       defaultValue = None \<rparr>"

abbreviation exampleSections :: "form_section list" where
  "exampleSections \<equiv>
     [\<lparr> section_id = ''document-info'', section_fields = [titleField, versiField] \<rparr>,
      \<lparr> section_id = ''project-overview'', section_fields = [latarBelakangField] \<rparr>]"

abbreviation exampleInput :: "string \<Rightarrow> string \<Rightarrow> element" where
  "exampleInput n v \<equiv>
     \<lparr> elem_id = ''input-'' @ n, elem_name = n, elem_value = v,
       invalidField = False, fieldError = None \<rparr>"

abbreviation exampleWizard :: wizard where
  "exampleWizard \<equiv>
     \<lparr> currentStep = 0, sections = exampleSections, wizard_mode = New, editIndex = None,
       formData = \<lparr> brd_id = None, title = None, createdAt = None, lastUpdated = None,
                    props = [] \<rparr>,
       form = [exampleInput ''title'' '''', exampleInput ''versi'' ''1.0''],
       toasts = [],
       store = \<lparr> localBRDs = [], tempData = None, cloudDocs = [] \<rparr> \<rparr>"



section \<open>Properties of storage.js\<close>

subsection \<open>Sorting\<close>

lemma sortCompare_valid:
  "lastUpdated a = Some ta \<Longrightarrow> lastUpdated b = Some tb \<Longrightarrow> sortCompare compareFn a b = tb - ta"
  by (simp add: sortCompare_def compareFn_def)

lemma set_array_insert: "set (array_insert cmp x xs) = insert x (set xs)"
  by (induction xs) auto

lemma set_array_sort: "set (array_sort cmp xs) = set xs"
  by (induction xs) (auto simp: set_array_insert)

lemma mset_array_insert: "mset (array_insert cmp x xs) = add_mset x (mset xs)"
  by (induction xs) auto

lemma mset_array_sort: "mset (array_sort cmp xs) = mset xs"
  by (induction xs) (auto simp: mset_array_insert)

lemma newerOrEqual_trans:
  "newerOrEqual a b \<Longrightarrow> newerOrEqual b c \<Longrightarrow> newerOrEqual a c"
  by (auto simp: newerOrEqual_def split: option.splits)

lemma sorted_array_insert:
  assumes "sorted_wrt newerOrEqual xs" and "lastUpdated x \<noteq> None"
    and "\<forall>r\<in>set xs. lastUpdated r \<noteq> None"
  shows "sorted_wrt newerOrEqual (array_insert compareFn x xs)"
  using assms
proof (induction xs)
  case Nil
  then show ?case by simp
next
  case (Cons y ys)
  from Cons.prems obtain tx ty where tx: "lastUpdated x = Some tx" and ty: "lastUpdated y = Some ty"
    by auto
  show ?case
  proof (cases "sortCompare compareFn x y \<le> 0")
    case True
    then have xy: "newerOrEqual x y"
      using tx ty by (simp add: sortCompare_valid newerOrEqual_def)
    have "\<forall>z\<in>set ys. newerOrEqual x z"
      using Cons.prems(1) xy newerOrEqual_trans by auto
    with True xy Cons.prems(1) show ?thesis by simp
  next
    case False
    then have yx: "newerOrEqual y x"
      using tx ty by (simp add: sortCompare_valid newerOrEqual_def)
    have "sorted_wrt newerOrEqual (array_insert compareFn x ys)"
      using Cons by simp
    with False yx Cons.prems(1) show ?thesis
      by (auto simp: set_array_insert)
  qed
qed

lemma sorted_array_sort:
  "\<forall>r\<in>set xs. lastUpdated r \<noteq> None \<Longrightarrow> sorted_wrt newerOrEqual (array_sort compareFn xs)"
  by (induction xs) (auto simp: sorted_array_insert set_array_sort)

lemma filter_array_insert_other:
  "\<not> P x \<Longrightarrow> filter P (array_insert cmp x xs) = filter P xs"
  by (induction xs) auto

lemma filter_array_insert_same:
  assumes "lastUpdated x = Some t" and "\<forall>r\<in>set xs. lastUpdated r \<noteq> None"
  shows "filter (\<lambda>r. lastUpdated r = Some t) (array_insert compareFn x xs)
         = x # filter (\<lambda>r. lastUpdated r = Some t) xs"
  using assms
proof (induction xs)
  case Nil
  then show ?case by simp
next
  case (Cons y ys)
  from Cons.prems obtain ty where ty: "lastUpdated y = Some ty" by auto
  show ?case
  proof (cases "sortCompare compareFn x y \<le> 0")
    case True
    with Cons.prems show ?thesis by simp
  next
    case False
    then have "ty \<noteq> t"
      using Cons.prems(1) ty by (simp add: sortCompare_valid)
    with False ty Cons show ?thesis by simp
  qed
qed

lemma array_sort_stable:
  "\<forall>r\<in>set xs. lastUpdated r \<noteq> None \<Longrightarrow>
   filter (\<lambda>r. lastUpdated r = Some t) (array_sort compareFn xs)
   = filter (\<lambda>r. lastUpdated r = Some t) xs"
proof (induction xs)
  case Nil
  then show ?case by simp
next
  case (Cons x xs)
  show ?case
  proof (cases "lastUpdated x = Some t")
    case True
    then show ?thesis
      using Cons by (simp add: filter_array_insert_same set_array_sort)
  next
    case False
    then show ?thesis
      using Cons by (simp add: filter_array_insert_other)
  qed
qed

subsection \<open>Saving\<close>

lemma loadBRDs_total: "\<exists>brds w'. loadBRDs e w = (Inr brds, w')"
  by (cases "loadBRDs_try e w"; cases "fst (loadBRDs_try e w)") (auto simp: loadBRDs_def)

lemma findIndex_Some: "findIndex p xs = Some j \<Longrightarrow> j < length xs \<and> p (xs ! j)"
proof (induction xs arbitrary: j)
  case Nil
  then show ?case by simp
next
  case (Cons x xs)
  then show ?case by (cases "p x") auto
qed

lemma saveBRDToLocalStorage_stored:
  assumes "saveBRDToLocalStorage e b m idx w = (Inr u, w')"
  shows "b \<in> set (localBRDs w') \<and> cloudDocs w' = cloudDocs w \<and> tempData w' = tempData w"
proof -
  let ?drafts = "localBRDs w"
  have upd: "k < length ?drafts \<Longrightarrow> b \<in> set (?drafts[k := b])" for k
    by (rule set_update_memI)
  from assms show ?thesis
    by (auto simp: saveBRDToLocalStorage_def setLocalBRDs_def getLocalBRDs_def Let_def upd
        split: option.splits if_splits dest: findIndex_Some)
qed

lemma saveBRD_Inr:
  assumes "saveBRD e brdData m idx w = (Inr i, w')"
  shows "i = orElse (brd_id brdData) (uniqueId e) \<and> brdWithMeta e brdData \<in> set (localBRDs w')"
  using assms
  by (auto simp: saveBRD_def Let_def split: prod.splits sum.splits if_splits
      dest: saveBRDToLocalStorage_stored)

lemma orElse_truthy: "orElse s d = (if truthy s then the s else d)"
  by (cases s) auto

lemma map_of_setDoc:
  "map_of (setDoc i d mg docs) =
     (map_of docs)(i \<mapsto> (case map_of docs i of None \<Rightarrow> d
                             | Some old \<Rightarrow> if mg then spread old d else d))"
  by (simp add: setDoc_def update_conv')

lemma saveBRDToFirestore_Inr:
  assumes "saveBRDToFirestore e b m w = (Inr u, w')"
  shows "brd_id b \<noteq> Some [] \<and> firestoreSetError e b = None
       \<and> w' = w \<lparr> cloudDocs := setDoc (docKey e (cloudDocs w) b) b (m = Edit) (cloudDocs w) \<rparr>"
  using assms
  by (auto simp: saveBRDToFirestore_def split: if_splits option.splits)


lemma createdAtOr_truthy: "now \<noteq> [] \<Longrightarrow> truthyVal (createdAtOr c now)"
  by (cases c) auto

lemma createdAtOr_kept: "truthyVal v \<Longrightarrow> createdAtOr (Some v) now = v"
  by simp

lemma saveBRD_cloud:
  assumes "saveBRD e brdData m idx w = (Inr i, w')" and "cloudAvailable e"
  shows "\<exists>d. map_of (cloudDocs w') i = Some d \<and> title d = title (brdWithMeta e brdData)"
proof -
  let ?b = "brdWithMeta e brdData"
  from assms obtain u w1 u2 where
    s1: "saveBRDToFirestore e ?b m w = (Inr u, w1)" and
    s2: "saveBRDToLocalStorage e ?b m idx w1 = (Inr u2, w')" and
    i: "i = orElse (brd_id brdData) (uniqueId e)"
    by (auto simp: saveBRD_def Let_def canUseCloudStorage_def split: prod.splits sum.splits)
  have key: "docKey e (cloudDocs w) ?b = i"
    using i by (simp add: docKey_def brdWithMeta_def)
  from s1 have w1: "w1 = w \<lparr> cloudDocs := setDoc i ?b (m = Edit) (cloudDocs w) \<rparr>"
    using key by (auto dest!: saveBRDToFirestore_Inr)
  from s2 have "cloudDocs w' = cloudDocs w1"
    by (simp add: saveBRDToLocalStorage_stored)
  then have "map_of (cloudDocs w') i =
      Some (case map_of (cloudDocs w) i of None \<Rightarrow> ?b
            | Some old \<Rightarrow> if m = Edit then spread old ?b else ?b)"
    using w1 by (simp add: map_of_setDoc)
  moreover have "title (spread old ?b) = title ?b" for old
    by (simp add: spread_def brdWithMeta_def)
  ultimately show ?thesis
    by (auto split: option.splits)
qed

lemma saveBRD_succeeds:
  assumes "setItemError e = None"
    and "cloudAvailable e \<longrightarrow> firestoreSetError e (brdWithMeta e brdData) = None"
    and "uniqueId e \<noteq> []"
  shows "\<exists>w'. saveBRD e brdData m idx w = (Inr (orElse (brd_id brdData) (uniqueId e)), w')"
proof -
  have "orElse (brd_id brdData) (uniqueId e) \<noteq> []"
    using assms(3) by (cases "brd_id brdData") auto
  then show ?thesis
    using assms(1,2)
    by (auto simp: saveBRD_def Let_def saveBRDToFirestore_def saveBRDToLocalStorage_def
        setLocalBRDs_def canUseCloudStorage_def brdWithMeta_def split: prod.splits sum.splits)
qed

text \<open>A remote write that fails ends the save before the local write.\<close>

lemma saveBRD_remote_failure:
  assumes "cloudAvailable e" and "uniqueId e \<noteq> []"
    and "firestoreSetError e (brdWithMeta e brdData) = Some msg"
  shows "saveBRD e brdData m idx w = (Inl (Error (''Gagal menyimpan BRD: '' @ msg)), w)"
proof -
  have "orElse (brd_id brdData) (uniqueId e) \<noteq> []"
    using assms(2) by (cases "brd_id brdData") auto
  then have "saveBRDToFirestore e (brdWithMeta e brdData) m w = (Inl (Error msg), w)"
    using assms(1,3) by (simp add: saveBRDToFirestore_def canUseCloudStorage_def brdWithMeta_def)
  then show ?thesis
    using assms(1) by (simp add: saveBRD_def Let_def canUseCloudStorage_def)
qed

text \<open>A non-empty string that is no date is truthy, and kept.\<close>

lemma brdWithMeta_keeps_string:
  "createdAt (brdWithMeta exampleEnv (exampleDraft \<lparr> createdAt := Some (Str ''kemarin'') \<rparr>))
     = Some (Str ''kemarin'')"
  by (simp add: brdWithMeta_def)

subsection \<open>Migration\<close>








subsection \<open>The claims about storage.js\<close>

text \<open>
  C1 (the code departs from it). The claim: while remote storage is available, a failing
  Firestore write does not abort \<^verbatim>\<open>saveBRD\<close>; the local write still happens and the id
  is returned. In the code the remote write is awaited inside the one \<^verbatim>\<open>try\<close> block,
  ahead of the local write that the comment calls "Always save to localStorage as
  backup": when it throws, the \<^verbatim>\<open>catch\<close> rethrows and the local cache is left as it was.
  The evaluation below is such a save.
\<close>

theorem saveBRD_remote_failure_aborts:
  "saveBRD (exampleEnv \<lparr> firestoreSetError := (\<lambda>_. Some ''unavailable'') \<rparr>)
      exampleDraft New None exampleWorld
   = (Inl (Error ''Gagal menyimpan BRD: unavailable''), exampleWorld)"
  by (simp add: saveBRD_def brdWithMeta_def saveBRDToFirestore_def canUseCloudStorage_def)

text \<open>
  C2 as stated fails: when remote storage is available and the fetch throws,
  \<^verbatim>\<open>loadBRDs\<close> returns the local cache as it is stored, here oldest first.
\<close>

theorem loadBRDs_fallback_unsorted:
  "fst (loadBRDs (exampleEnv \<lparr> firestoreGetError := Some ''offline'' \<rparr>) exampleWorld)
     = Inr [exampleOld, exampleNew]
   \<and> \<not> sorted_wrt newerOrEqual [exampleOld, exampleNew]"
  by (simp add: loadBRDs_def loadBRDs_try_def loadBRDsFromFirestore_def
      canUseCloudStorage_def getLocalBRDs_def newerOrEqual_def)

text \<open>
  C2, amended: when \<^verbatim>\<open>loadBRDs\<close> does not take its fallback (remote storage is not
  available, or the fetch succeeds) and every record read has a valid
  \<^verbatim>\<open>lastUpdated\<close>, the returned sequence is a rearrangement of the records read, in
  descending order of \<^verbatim>\<open>lastUpdated\<close> as time values, and records with equal
  \<^verbatim>\<open>lastUpdated\<close> keep their relative order.
\<close>

theorem loadBRDs_sorted:
  assumes "cloudAvailable e \<longrightarrow> firestoreGetError e = None"
    and "\<forall>r\<in>set (if cloudAvailable e then map snd (cloudDocs w) else localBRDs w).
           lastUpdated r \<noteq> None"
  shows "\<exists>src brds.
           (if cloudAvailable e then loadBRDsFromFirestore e w = Inr src
            else src = localBRDs w)
         \<and> fst (loadBRDs e w) = Inr brds
         \<and> mset brds = mset src
         \<and> sorted_wrt newerOrEqual brds
         \<and> (\<forall>t. filter (\<lambda>r. lastUpdated r = Some t) brds
                = filter (\<lambda>r. lastUpdated r = Some t) src)"
proof (cases "cloudAvailable e")
  case False
  let ?src = "localBRDs w"
  have v: "\<forall>r\<in>set ?src. lastUpdated r \<noteq> None"
    using assms(2) False by simp
  have "fst (loadBRDs e w) = Inr (array_sort compareFn ?src)"
    using False by (simp add: loadBRDs_def loadBRDs_try_def canUseCloudStorage_def getLocalBRDs_def)
  then show ?thesis
    using False v
    by (intro exI [of _ ?src] exI [of _ "array_sort compareFn ?src"])
      (simp add: mset_array_sort sorted_array_sort array_sort_stable)
next
  case True
  let ?src = "map (\<lambda>(docId, d).
                 d \<lparr> brd_id := (case brd_id d of None \<Rightarrow> Some docId | Some v \<Rightarrow> Some v) \<rparr>)
               (cloudDocs w)"
  have src: "loadBRDsFromFirestore e w = Inr ?src"
    using True assms(1) by (simp add: loadBRDsFromFirestore_def canUseCloudStorage_def)
  have v: "\<forall>r\<in>set ?src. lastUpdated r \<noteq> None"
    using assms(2) True by auto
  have "fst (loadBRDs e w) = Inr (array_sort compareFn ?src)"
    using True src
    by (simp add: loadBRDs_def loadBRDs_try_def canUseCloudStorage_def split: prod.splits)
  then show ?thesis
    using True v src
    by (intro exI [of _ ?src] exI [of _ "array_sort compareFn ?src"])
      (simp add: mset_array_sort sorted_array_sort array_sort_stable)
qed

theorem loadBRDs_sorted_witness:
  "fst (loadBRDs (exampleEnv \<lparr> cloudAvailable := False \<rparr>) exampleWorld)
     = Inr [exampleNew, exampleOld]
   \<and> sorted_wrt newerOrEqual [exampleNew, exampleOld]"
  using loadBRDs_sorted [of "exampleEnv \<lparr> cloudAvailable := False \<rparr>" exampleWorld]
  by (simp add: loadBRDs_def loadBRDs_try_def canUseCloudStorage_def getLocalBRDs_def
      newerOrEqual_def sortCompare_def compareFn_def)

text \<open>
  C3 as stated fails for a record whose \<^verbatim>\<open>createdAt\<close> is the number \<open>0\<close>: the guard
  \<^verbatim>\<open>brdData.createdAt || currentTime\<close> reads it as absent, and the save stamps the
  current time over it.
\<close>

theorem saveBRD_restamps_zero_createdAt:
  "saveBRD (exampleEnv \<lparr> cloudAvailable := False \<rparr>)
      \<lparr> brd_id = Some ''a1'', title = Some ''X'', createdAt = Some (Num 0),
        lastUpdated = Some 0, props = [] \<rparr>
      New None \<lparr> localBRDs = [], tempData = None, cloudDocs = [] \<rparr>
   = (Inr ''a1'',
      \<lparr> localBRDs =
          [\<lparr> brd_id = Some ''a1'', title = Some ''X'',
             createdAt = Some (Str ''2025-09-30T12:42:10.000Z''),
             lastUpdated = Some 1759236130000, props = [] \<rparr>],
        tempData = None, cloudDocs = [] \<rparr>)"
  by (simp add: saveBRD_def brdWithMeta_def saveBRDToLocalStorage_def setLocalBRDs_def
      canUseCloudStorage_def getLocalBRDs_def Let_def)

text \<open>
  C3, amended: a save that returns has stored a record that carries the returned id,
  which is the id of the input when that is truthy (a non-empty string) and the
  generated one otherwise; its \<^verbatim>\<open>lastUpdated\<close> is the current time; its \<^verbatim>\<open>createdAt\<close>
  is that of the input when that is truthy (not absent, \<^verbatim>\<open>null\<close>, \<open>0\<close> or the empty
  string) and the current time otherwise; and every later save of the stored record
  returns the same id and keeps \<^verbatim>\<open>createdAt\<close> while it stamps \<^verbatim>\<open>lastUpdated\<close> anew.
  (\<^verbatim>\<open>generateUniqueId\<close> and \<^verbatim>\<open>toISOString\<close> never return the empty string.)
\<close>

theorem saveBRD_metadata:
  assumes "saveBRD e brdData m idx w = (Inr i, w')"
    and "uniqueId e \<noteq> []" and "currentTime e \<noteq> []"
  shows "\<exists>r\<in>set (localBRDs w').
           brd_id r = Some i
         \<and> i = (if truthy (brd_id brdData) then the (brd_id brdData) else uniqueId e)
         \<and> lastUpdated r = Some (currentTimeValue e)
         \<and> createdAt r =
             (case createdAt brdData of
                None \<Rightarrow> Some (Str (currentTime e))
              | Some v \<Rightarrow> if truthyVal v then Some v else Some (Str (currentTime e)))
         \<and> props r = props brdData
         \<and> (\<forall>e2 m2 k2 w2 i2 w2'. saveBRD e2 r m2 k2 w2 = (Inr i2, w2') \<longrightarrow>
               i2 = i \<and> (\<exists>r2\<in>set (localBRDs w2').
                   brd_id r2 = Some i \<and> createdAt r2 = createdAt r
                 \<and> lastUpdated r2 = Some (currentTimeValue e2)))"
proof -
  let ?r = "brdWithMeta e brdData"
  from assms(1) have i: "i = orElse (brd_id brdData) (uniqueId e)" and mem: "?r \<in> set (localBRDs w')"
    by (auto dest: saveBRD_Inr)
  have ne: "i \<noteq> []"
    using i assms(2) by (cases "brd_id brdData") auto
  have c: "createdAt ?r = Some (createdAtOr (createdAt brdData) (currentTime e))"
    by (simp add: brdWithMeta_def)
  have ct: "truthyVal (createdAtOr (createdAt brdData) (currentTime e))"
    using assms(3) by (rule createdAtOr_truthy)
  have again: "i2 = i \<and> (\<exists>r2\<in>set (localBRDs w2').
                   brd_id r2 = Some i \<and> createdAt r2 = createdAt ?r
                 \<and> lastUpdated r2 = Some (currentTimeValue e2))"
    if "saveBRD e2 ?r m2 k2 w2 = (Inr i2, w2')" for e2 m2 k2 w2 i2 w2'
  proof -
    from that have "i2 = orElse (brd_id ?r) (uniqueId e2)"
      and m2: "brdWithMeta e2 ?r \<in> set (localBRDs w2')"
      by (auto dest: saveBRD_Inr)
    then have "i2 = i"
      using i ne by (simp add: brdWithMeta_def)
    moreover have "brd_id (brdWithMeta e2 ?r) = Some i"
      using i ne by (simp add: brdWithMeta_def)
    moreover have "createdAt (brdWithMeta e2 ?r) = createdAt ?r"
      using ct by (simp add: brdWithMeta_def)
    moreover have "lastUpdated (brdWithMeta e2 ?r) = Some (currentTimeValue e2)"
      by (simp add: brdWithMeta_def)
    ultimately show ?thesis using m2 by blast
  qed
  have "brd_id ?r = Some i" "lastUpdated ?r = Some (currentTimeValue e)"
    "props ?r = props brdData"
    using i by (simp_all add: brdWithMeta_def)
  moreover have "createdAt ?r =
             (case createdAt brdData of
                None \<Rightarrow> Some (Str (currentTime e))
              | Some v \<Rightarrow> if truthyVal v then Some v else Some (Str (currentTime e)))"
    using c by (cases "createdAt brdData") simp_all
  moreover have "i = (if truthy (brd_id brdData) then the (brd_id brdData) else uniqueId e)"
    using i by (simp add: orElse_truthy)
  ultimately show ?thesis
    using mem again by blast
qed

theorem saveBRD_metadata_witness:
  "saveBRD (exampleEnv \<lparr> cloudAvailable := False \<rparr>) exampleDraft New None exampleWorld
   = (Inr ''k3x'',
      exampleWorld \<lparr> localBRDs := [exampleOld, exampleNew,
         \<lparr> brd_id = Some ''k3x'', title = Some ''BRD Tanpa Judul'',
           createdAt = Some (Str ''2025-09-30T12:42:10.000Z''),
           lastUpdated = Some 1759236130000, props = [(''versi'', ''1.0'')] \<rparr>] \<rparr>)"
  using saveBRD_metadata [of "exampleEnv \<lparr> cloudAvailable := False \<rparr>" exampleDraft New None
      exampleWorld "''k3x''"]
  by (simp add: saveBRD_def brdWithMeta_def saveBRDToLocalStorage_def setLocalBRDs_def
      canUseCloudStorage_def getLocalBRDs_def Let_def)

text \<open>
  C4: when remote storage is available and the fetch throws, \<^verbatim>\<open>loadBRDs\<close> returns
  the local cache as it is, changes nothing and raises no error.
\<close>

theorem loadBRDs_fallback:
  assumes "cloudAvailable e" and "firestoreGetError e = Some msg"
  shows "loadBRDs e w = (Inr (localBRDs w), w)"
  using assms
  by (simp add: loadBRDs_def loadBRDs_try_def loadBRDsFromFirestore_def
      canUseCloudStorage_def getLocalBRDs_def)

theorem loadBRDs_fallback_witness:
  "loadBRDs (exampleEnv \<lparr> firestoreGetError := Some ''offline'' \<rparr>) exampleWorld
   = (Inr [exampleOld, exampleNew], exampleWorld)"
  using loadBRDs_fallback
    [of "exampleEnv \<lparr> firestoreGetError := Some ''offline'' \<rparr>" "''offline''" exampleWorld]
  by simp



text \<open>
  C6 (the code departs from it). The claim: when a push fails after earlier pushes
  succeeded, the number of records pushed so far is still returned. In the code the
  loop stands inside one \<^verbatim>\<open>try\<close> block whose \<^verbatim>\<open>catch\<close> returns \<open>0\<close>: below, the first
  record reaches the remote collection, the second push fails, and the call returns
  \<open>0\<close>. (\<^verbatim>\<open>importBRDs\<close> catches per record and returns the number of successes.)
\<close>

theorem migrateLocalToCloud_partial_failure:
  "migrateLocalToCloud
      (exampleEnv \<lparr> firestoreSetError :=
         (\<lambda>b. if brd_id b = Some ''b2'' then Some ''unavailable'' else None) \<rparr>)
      exampleWorld
   = (0, exampleWorld \<lparr> cloudDocs := [(''a1'', exampleOld)] \<rparr>)"
  by (simp add: migrateLocalToCloud_def loadBRDsFromFirestore_def canUseCloudStorage_def
      getLocalBRDs_def existsInCloud_def saveBRDToFirestore_def setDoc_def docKey_def)

text \<open>
  C10: a save that returns has stored, in the local cache and (when remote storage is
  available) in the remote collection, a record under the returned id whose title is
  not empty: the title of the input when that is a non-empty string, and
  "BRD Tanpa Judul" otherwise.
\<close>

theorem saveBRD_title:
  assumes "saveBRD e brdData m idx w = (Inr i, w')"
  shows "(\<exists>r\<in>set (localBRDs w'). brd_id r = Some i \<and> truthy (title r)
            \<and> title r = Some (if truthy (title brdData) then the (title brdData)
                               else ''BRD Tanpa Judul''))
       \<and> (cloudAvailable e \<longrightarrow>
            (\<exists>d. map_of (cloudDocs w') i = Some d \<and> truthy (title d)
              \<and> title d = Some (if truthy (title brdData) then the (title brdData)
                                 else ''BRD Tanpa Judul'')))"
proof -
  let ?r = "brdWithMeta e brdData"
  let ?t = "if truthy (title brdData) then the (title brdData) else ''BRD Tanpa Judul''"
  have t: "title ?r = Some ?t"
    by (simp add: brdWithMeta_def orElse_truthy)
  have tr: "truthy (Some ?t)"
    by (cases "title brdData") auto
  from assms have "brd_id ?r = Some i" and "?r \<in> set (localBRDs w')"
    by (auto dest: saveBRD_Inr simp: brdWithMeta_def)
  with t tr have local: "\<exists>r\<in>set (localBRDs w'). brd_id r = Some i \<and> truthy (title r) \<and> title r = Some ?t"
    by (intro bexI [of _ ?r]) simp_all
  have "\<exists>d. map_of (cloudDocs w') i = Some d \<and> truthy (title d) \<and> title d = Some ?t"
    if "cloudAvailable e"
    using saveBRD_cloud [OF assms that] t tr by auto
  with local show ?thesis by blast
qed

theorem saveBRD_title_witness:
  "saveBRD exampleEnv exampleDraft New None exampleWorld
   = (Inr ''k3x'',
      \<lparr> localBRDs = [exampleOld, exampleNew,
         \<lparr> brd_id = Some ''k3x'', title = Some ''BRD Tanpa Judul'',
           createdAt = Some (Str ''2025-09-30T12:42:10.000Z''),
           lastUpdated = Some 1759236130000, props = [(''versi'', ''1.0'')] \<rparr>],
        tempData = None,
        cloudDocs = [(''k3x'',
         \<lparr> brd_id = Some ''k3x'', title = Some ''BRD Tanpa Judul'',
           createdAt = Some (Str ''2025-09-30T12:42:10.000Z''),
           lastUpdated = Some 1759236130000, props = [(''versi'', ''1.0'')] \<rparr>)] \<rparr>)"
  using saveBRD_title [of exampleEnv exampleDraft New None exampleWorld "''k3x''"]
  by (simp add: saveBRD_def brdWithMeta_def saveBRDToLocalStorage_def setLocalBRDs_def
      saveBRDToFirestore_def setDoc_def docKey_def canUseCloudStorage_def getLocalBRDs_def
      Let_def)

section \<open>Properties of form-generator.js\<close>

subsection \<open>Validation\<close>

lemma foldl_markFieldInvalid:
  "foldl markFieldInvalid el msgs =
     (if msgs = [] then el else el \<lparr> invalidField := True, fieldError := Some (last msgs) \<rparr>)"
  by (induction msgs arbitrary: el) (auto simp: markFieldInvalid_def)

lemma validateField_fst: "fst (validateField fld el) = (validationMessages fld (trim (elem_value el)) = [])"
  by (simp add: validateField_def Let_def)

lemma validateField_snd:
  "snd (validateField fld el) =
     (if fst (validateField fld el) then el
      else el \<lparr> invalidField := True,
                fieldError := Some (last (validationMessages fld (trim (elem_value el)))) \<rparr>)"
  by (simp add: validateField_def Let_def foldl_markFieldInvalid)

lemma validateField_elem_id [simp]: "elem_id (snd (validateField fld el)) = elem_id el"
  by (simp add: validateField_snd)

lemma findIndex_append:
  "\<forall>y\<in>set pre. \<not> p y \<Longrightarrow> p x \<Longrightarrow> findIndex p (pre @ x # xs) = Some (length pre)"
  by (induction pre) auto

lemma validateFields_matched:
  assumes "map elem_id els = map inputId fs" and "distinct (map inputId fs)"
    and "\<forall>p\<in>set pre. elem_id p \<notin> inputId ` set fs"
  shows "validateFields fs (pre @ els) ok =
           (ok \<and> list_all (\<lambda>(f, el). fst (validateField f el)) (zip fs els),
            pre @ map (\<lambda>(f, el). snd (validateField f el)) (zip fs els))"
  using assms
proof (induction fs arbitrary: els pre ok)
  case Nil
  then show ?case by simp
next
  case (Cons f fs)
  then obtain el els' where els: "els = el # els'" by (cases els) auto
  with Cons.prems have id: "elem_id el = inputId f" and rest: "map elem_id els' = map inputId fs"
    by auto
  have idx: "findIndex (\<lambda>x. elem_id x = inputId f) (pre @ el # els') = Some (length pre)"
    using Cons.prems(3) id by (intro findIndex_append) auto
  obtain ok1 el1 where vf: "validateField f el = (ok1, el1)" by (cases "validateField f el")
  then have el1: "elem_id el1 = inputId f"
    using validateField_elem_id [of f el] id by simp
  have pre': "\<forall>p\<in>set (pre @ [el1]). elem_id p \<notin> inputId ` set fs"
    using Cons.prems(2,3) el1 by auto
  have "validateFields fs ((pre @ [el1]) @ els') (ok \<and> ok1) =
          ((ok \<and> ok1) \<and> list_all (\<lambda>(f, el). fst (validateField f el)) (zip fs els'),
           (pre @ [el1]) @ map (\<lambda>(f, el). snd (validateField f el)) (zip fs els'))"
    using Cons.IH [OF rest _ pre'] Cons.prems(2) by simp
  then show ?case
    using els idx vf by (auto simp: nth_append)
qed

lemma validationMessages_bounds:
  "validationMessages fld v =
     (if required fld \<and> v = [] then [MissingRequired] else []) @
     (if v \<noteq> [] then
        (case minBound fld of
           None \<Rightarrow> []
         | Some n \<Rightarrow> if n \<noteq> 0 \<and> length v < n then [TooShort n] else []) @
        (case maxBound fld of
           None \<Rightarrow> []
         | Some n \<Rightarrow> if n \<noteq> 0 \<and> n < length v then [TooLong n] else [])
      else [])"
proof (cases "field_validation fld")
  case None
  then show ?thesis by (simp add: validationMessages_def minBound_def maxBound_def)
next
  case (Some val)
  then show ?thesis by (simp add: validationMessages_def minBound_def maxBound_def)
qed

lemma MissingRequired_iff:
  "MissingRequired \<in> set (validationMessages fld v) \<longleftrightarrow> required fld \<and> v = []"
  by (cases "minBound fld"; cases "maxBound fld") (simp_all add: validationMessages_bounds)

lemma TooShort_iff:
  "TooShort n \<in> set (validationMessages fld v) \<longleftrightarrow>
     v \<noteq> [] \<and> minBound fld = Some n \<and> length v < n"
  by (cases "minBound fld"; cases "maxBound fld") (auto simp: validationMessages_bounds)

lemma TooLong_iff:
  "TooLong n \<in> set (validationMessages fld v) \<longleftrightarrow>
     v \<noteq> [] \<and> maxBound fld = Some n \<and> n \<noteq> 0 \<and> n < length v"
  by (cases "minBound fld"; cases "maxBound fld") (auto simp: validationMessages_bounds)

lemma zip_ids:
  "map g els = map h fs \<Longrightarrow> (f, el) \<in> set (zip fs els) \<Longrightarrow> g el = h f"
proof (induction fs arbitrary: els)
  case Nil
  then show ?case by simp
next
  case (Cons a fs)
  then show ?case by (cases els) auto
qed

lemma inj_inputId: "inputId f = inputId g \<longleftrightarrow> field_id f = field_id g"
  by (simp add: inputId_def)

lemma distinct_inputId: "distinct (map field_id fs) \<Longrightarrow> distinct (map inputId fs)"
proof -
  assume d: "distinct (map field_id fs)"
  have "map inputId fs = map ((@) ''input-'') (map field_id fs)"
    by (simp add: inputId_def [abs_def] comp_def)
  moreover have "inj ((@) ''input-'')"
    by (simp add: inj_on_def)
  ultimately show ?thesis
    using d by (simp only: distinct_map) (auto intro: inj_on_subset)
qed

lemma validateField_cleared:
  "validateField f (el \<lparr> invalidField := False \<rparr>) =
     (fst (validateField f el),
      if fst (validateField f el) then el \<lparr> invalidField := False \<rparr>
      else el \<lparr> invalidField := True,
                fieldError := Some (last (validationMessages f (trim (elem_value el)))) \<rparr>)"
  by (simp add: validateField_def Let_def foldl_markFieldInvalid)

lemma validateCurrentSection_matched:
  assumes "currentStep st < length (sections st)"
    and "map elem_id (form st) = map inputId (section_fields (sections st ! currentStep st))"
    and "distinct (map field_id (section_fields (sections st ! currentStep st)))"
  shows "validateCurrentSection st =
     Inr (list_all (\<lambda>(f, el). fst (validateField f el))
            (zip (section_fields (sections st ! currentStep st)) (form st)),
          st \<lparr> form := map (\<lambda>(f, el).
                    if fst (validateField f el) then el \<lparr> invalidField := False \<rparr>
                    else el \<lparr> invalidField := True,
                              fieldError := Some (last (validationMessages f (trim (elem_value el)))) \<rparr>)
                  (zip (section_fields (sections st ! currentStep st)) (form st)),
               toasts := (if list_all (\<lambda>(f, el). fst (validateField f el))
                               (zip (section_fields (sections st ! currentStep st)) (form st))
                          then toasts st
                          else toasts st @
                            [(''Mohon isi semua kolom yang diperlukan dengan benar'', ''error'')]) \<rparr>)"
proof -
  let ?fs = "section_fields (sections st ! currentStep st)"
  let ?cl = "map (\<lambda>el. el \<lparr> invalidField := False \<rparr>) (form st)"
  have ids: "map elem_id ?cl = map inputId ?fs"
    using assms(2) by (simp add: comp_def)
  have z: "zip ?fs ?cl = map (\<lambda>(f, el). (f, el \<lparr> invalidField := False \<rparr>)) (zip ?fs (form st))"
    by (simp add: zip_map2)
  have "validateFields ?fs ([] @ ?cl) True =
          (True \<and> list_all (\<lambda>(f, el). fst (validateField f el)) (zip ?fs ?cl),
           [] @ map (\<lambda>(f, el). snd (validateField f el)) (zip ?fs ?cl))"
    by (rule validateFields_matched [OF ids distinct_inputId [OF assms(3)]]) simp
  then have "validateFields ?fs ?cl True =
          (list_all (\<lambda>(f, el). fst (validateField f el)) (zip ?fs (form st)),
           map (\<lambda>(f, el).
                    if fst (validateField f el) then el \<lparr> invalidField := False \<rparr>
                    else el \<lparr> invalidField := True,
                              fieldError := Some (last (validationMessages f (trim (elem_value el)))) \<rparr>)
             (zip ?fs (form st)))"
    by (simp add: z list_all_iff validateField_cleared split_def comp_def)
  then show ?thesis
    using assms(1) by (simp add: validateCurrentSection_def Let_def)
qed

subsection \<open>The draft and the loading of a section\<close>




lemma stamps_setProp [simp]:
  "createdAt (setProp k v b) = createdAt b" "lastUpdated (setProp k v b) = lastUpdated b"
  by (simp_all add: setProp_def)















subsection \<open>The claims about form-generator.js\<close>

text \<open>
  C7: in a state whose form shows the current section (one input per field, in order,
  as \<^verbatim>\<open>loadFormSection\<close> builds it) and in which at least one field fails
  \<^verbatim>\<open>validateField\<close>, \<^verbatim>\<open>navigateNext\<close> returns without an error and leaves the current
  step, the form data, the storage and the values of the inputs as they were; the
  inputs it marks invalid are exactly those of the failing fields, one entry per field
  under the id of its input, with the message of its last failed check. With exactly
  one failing field there is exactly one entry.
\<close>

theorem navigateNext_blocked:
  assumes "currentStep st < length (sections st)"
    and "sec = sections st ! currentStep st"
    and "map elem_id (form st) = map inputId (section_fields sec)"
    and "distinct (map field_id (section_fields sec))"
    and "invalid = filter (\<lambda>(f, el). \<not> fst (validateField f el)) (zip (section_fields sec) (form st))"
    and "invalid \<noteq> []"
  shows "\<exists>st'. navigateNext e st = (Inr (), st')
           \<and> currentStep st' = currentStep st
           \<and> formData st' = formData st
           \<and> store st' = store st
           \<and> map elem_value (form st') = map elem_value (form st)
           \<and> reportedFailures (form st') =
               map (\<lambda>(f, el). (inputId f, Some (last (validationMessages f (trim (elem_value el))))))
                 invalid"
proof -
  let ?fs = "section_fields sec"
  let ?z = "zip ?fs (form st)"
  let ?g = "\<lambda>(f, el).
                    if fst (validateField f el) then el \<lparr> invalidField := False \<rparr>
                    else el \<lparr> invalidField := True,
                              fieldError := Some (last (validationMessages f (trim (elem_value el)))) \<rparr>"
  let ?st' = "st \<lparr> form := map ?g ?z,
                   toasts := toasts st @
                     [(''Mohon isi semua kolom yang diperlukan dengan benar'', ''error'')] \<rparr>"
  have notall: "\<not> list_all (\<lambda>(f, el). fst (validateField f el)) ?z"
    using assms(5,6) by (auto simp: list_all_iff filter_empty_conv)
  have vcs: "validateCurrentSection st = Inr (False, ?st')"
    using validateCurrentSection_matched [OF assms(1)] assms(2,3,4) notall by simp
  then have nn: "navigateNext e st = (Inr (), ?st')"
    by (simp add: navigateNext_def)
  have len: "length ?fs = length (form st)"
    using assms(3) by (metis length_map)
  have vals: "map elem_value (map ?g ?z) = map elem_value (form st)"
  proof -
    have "map elem_value (map ?g ?z) = map (\<lambda>(f, el). elem_value el) ?z"
      by (auto simp: split_def)
    also have "\<dots> = map elem_value (map snd ?z)"
      by (simp add: split_def comp_def)
    also have "\<dots> = map elem_value (form st)"
      using len by simp
    finally show ?thesis .
  qed
  have "filter invalidField (map ?g ?z) = map ?g (filter (\<lambda>(f, el). \<not> fst (validateField f el)) ?z)"
    by (simp add: filter_map comp_def split_def)
  then have "reportedFailures (map ?g ?z) =
      map (\<lambda>p. (elem_id (?g p), fieldError (?g p))) invalid"
    using assms(5) by (simp add: reportedFailures_def comp_def)
  also have "\<dots> = map (\<lambda>(f, el). (inputId f, Some (last (validationMessages f (trim (elem_value el)))))) invalid"
  proof (rule map_cong [OF refl])
    fix p assume "p \<in> set invalid"
    then obtain f el where p: "p = (f, el)" and z: "(f, el) \<in> set ?z" and bad: "\<not> fst (validateField f el)"
      using assms(5) by auto
    from zip_ids [OF assms(3) z] have "elem_id el = inputId f" .
    with p bad show "(elem_id (?g p), fieldError (?g p)) =
        (case p of (f, el) \<Rightarrow> (inputId f, Some (last (validationMessages f (trim (elem_value el))))))"
      by simp
  qed
  finally have rep: "reportedFailures (form ?st') =
      map (\<lambda>(f, el). (inputId f, Some (last (validationMessages f (trim (elem_value el)))))) invalid"
    by simp
  show ?thesis
    using nn vals rep by (intro exI [of _ ?st']) simp
qed

theorem navigateNext_blocked_witness:
  "fst (navigateNext exampleEnv exampleWizard) = Inr ()
   \<and> currentStep (snd (navigateNext exampleEnv exampleWizard)) = 0
   \<and> reportedFailures (form (snd (navigateNext exampleEnv exampleWizard)))
       = [(''input-title'', Some MissingRequired)]"
proof -
  let ?sec = "sections exampleWizard ! currentStep exampleWizard"
  let ?invalid = "filter (\<lambda>(f, el). \<not> fst (validateField f el))
                    (zip (section_fields ?sec) (form exampleWizard))"
  have inv: "?invalid = [(titleField, exampleInput ''title'' '''')]"
    by (simp add: validateField_def validationMessages_def trim_def isWhiteSpace_def)
  have h1: "currentStep exampleWizard < length (sections exampleWizard)" by simp
  have h3: "map elem_id (form exampleWizard) = map inputId (section_fields ?sec)"
    by (simp add: inputId_def)
  have h4: "distinct (map field_id (section_fields ?sec))" by simp
  have h6: "?invalid \<noteq> []" by (simp only: inv) simp
  from navigateNext_blocked [OF h1 refl h3 h4 refl h6, of exampleEnv]
  obtain st' where nn: "navigateNext exampleEnv exampleWizard = (Inr (), st')"
    and cs: "currentStep st' = currentStep exampleWizard"
    and rep: "reportedFailures (form st') =
               map (\<lambda>(f, el). (inputId f, Some (last (validationMessages f (trim (elem_value el))))))
                 ?invalid"
    by blast
  have "map (\<lambda>(f, el). (inputId f, Some (last (validationMessages f (trim (elem_value el))))))
          ?invalid = [(''input-title'', Some MissingRequired)]"
    by (simp only: inv) (simp add: inputId_def validationMessages_def trim_def)
  with nn cs rep show ?thesis by simp
qed

text \<open>
  C8 as stated fails for a maximum length of \<open>0\<close>: the guard
  \<^verbatim>\<open>validation.maxLength && ...\<close> reads it as no bound, so a non-empty value, longer
  than \<open>0\<close>, passes.
\<close>

theorem validateField_zero_maxLength:
  "validateField
     \<lparr> field_id = ''catatan'', field_name = ''catatan'', required = False,
       field_validation = Some \<lparr> minLength = None, maxLength = Some 0 \<rparr>,
       defaultValue = None \<rparr>
     (exampleInput ''catatan'' ''a'')
   = (True, exampleInput ''catatan'' ''a'')
   \<and> trim ''a'' = ''a'' \<and> (0::nat) < length ''a''"
  by (simp add: validateField_def validationMessages_def trim_def isWhiteSpace_def Let_def)

text \<open>
  C8, amended: \<^verbatim>\<open>validateField\<close> works on the trimmed value. It reports the
  missing-required message exactly when the field is required and the trimmed value is
  empty; the too-short message exactly when the trimmed value is not empty and shorter
  than the minimum length of the field; the too-long message exactly when the trimmed
  value is not empty and longer than the maximum length of the field, a maximum of \<open>0\<close>
  counting as no bound. It returns true exactly when it reports nothing; otherwise the
  input is marked invalid and shows the last message reported. No length message is
  reported for a value whose trimmed form is empty.
\<close>

theorem validateField_reasons:
  "let v = trim (elem_value el); msgs = validationMessages fld v in
     (fst (validateField fld el) \<longleftrightarrow> msgs = [])
   \<and> (MissingRequired \<in> set msgs \<longleftrightarrow> required fld \<and> v = [])
   \<and> (\<forall>n. TooShort n \<in> set msgs \<longleftrightarrow>
          v \<noteq> [] \<and> minBound fld = Some n
          \<and> length v < n)
   \<and> (\<forall>n. TooLong n \<in> set msgs \<longleftrightarrow>
          v \<noteq> [] \<and> maxBound fld = Some n
          \<and> n \<noteq> 0 \<and> n < length v)
   \<and> (msgs \<noteq> [] \<longrightarrow>
         snd (validateField fld el)
           = el \<lparr> invalidField := True, fieldError := Some (last msgs) \<rparr>)
   \<and> (msgs = [] \<longrightarrow> snd (validateField fld el) = el)"
proof -
  let ?v = "trim (elem_value el)"
  let ?msgs = "validationMessages fld ?v"
  have a: "fst (validateField fld el) \<longleftrightarrow> ?msgs = []"
    by (rule validateField_fst)
  have b: "MissingRequired \<in> set ?msgs \<longleftrightarrow> required fld \<and> ?v = []"
    by (rule MissingRequired_iff)
  have c: "\<forall>n. TooShort n \<in> set ?msgs \<longleftrightarrow>
          ?v \<noteq> [] \<and> minBound fld = Some n \<and> length ?v < n"
    using TooShort_iff by blast
  have d: "\<forall>n. TooLong n \<in> set ?msgs \<longleftrightarrow>
          ?v \<noteq> [] \<and> maxBound fld = Some n \<and> n \<noteq> 0 \<and> n < length ?v"
    using TooLong_iff by blast
  have e: "?msgs \<noteq> [] \<longrightarrow> snd (validateField fld el)
           = el \<lparr> invalidField := True, fieldError := Some (last ?msgs) \<rparr>"
    by (simp add: validateField_snd validateField_fst)
  have f: "?msgs = [] \<longrightarrow> snd (validateField fld el) = el"
    by (simp add: validateField_snd validateField_fst)
  from a b c d e f show ?thesis
    unfolding Let_def by (intro conjI)
qed

theorem validateField_reasons_witness:
  "validationMessages titleField (trim '' abc '') = [TooShort 5]
   \<and> validateField titleField (exampleInput ''title'' '' abc '')
     = (False, (exampleInput ''title'' '' abc '')
                 \<lparr> invalidField := True, fieldError := Some (TooShort 5) \<rparr>)"
proof -
  let ?el = "exampleInput ''title'' '' abc ''"
  note r = validateField_reasons [of ?el titleField, unfolded Let_def]
  have msgs: "validationMessages titleField (trim (elem_value ?el)) = [TooShort 5]"
    by (simp add: validationMessages_def trim_def isWhiteSpace_def)
  have a: "fst (validateField titleField ?el)
           \<longleftrightarrow> validationMessages titleField (trim (elem_value ?el)) = []"
    using r by (rule conjunct1)
  have e: "validationMessages titleField (trim (elem_value ?el)) \<noteq> [] \<longrightarrow>
           snd (validateField titleField ?el)
           = ?el \<lparr> invalidField := True,
                     fieldError := Some (last (validationMessages titleField
                                                 (trim (elem_value ?el)))) \<rparr>"
    using r by (elim conjE)
  have 1: "fst (validateField titleField ?el) = False"
    using a by (simp only: msgs) simp
  have 2: "snd (validateField titleField ?el)
           = ?el \<lparr> invalidField := True, fieldError := Some (TooShort 5) \<rparr>"
    using e by (simp only: msgs) simp
  have "validateField titleField ?el
     = (False, ?el \<lparr> invalidField := True, fieldError := Some (TooShort 5) \<rparr>)"
    by (rule prod_eqI) (simp_all only: 1 2 fst_conv snd_conv)
  with msgs show ?thesis by simp
qed





end
